theory Spec2Isabelle
  imports Complex_Main
begin

section \<open>Platform strings\<close>

text \<open>
  A JavaScript string is modelled as a \<^typ>\<open>string\<close>: one \<^typ>\<open>char\<close> per code unit,
  restricted to the code units below 256. \<open>isWhiteSpace\<close> lists the code units of that
  range that \<open>String.prototype.trim\<close> strips (WhiteSpace and LineTerminator of the
  language: TAB, LF, VT, FF, CR, SP, NBSP).
\<close>

definition isWhiteSpace :: "char \<Rightarrow> bool" where
  "isWhiteSpace c =
     (c = CHR 0x09 \<or> c = CHR 0x0A \<or> c = CHR 0x0B \<or> c = CHR 0x0C \<or> c = CHR 0x0D
      \<or> c = CHR 0x20 \<or> c = CHR 0xA0)"

text \<open>\<open>s.trim()\<close>: the string without its leading and trailing white space.\<close>

definition trim :: "string \<Rightarrow> string" where
  "trim s = rev (dropWhile isWhiteSpace (rev (dropWhile isWhiteSpace s)))"

text \<open>
  \<open>s.split(sep)\<close> for a separator of one code unit (the source calls \<open>split(' ')\<close>):
  the pieces between the occurrences of the separator, empty pieces included; the
  empty string gives one empty piece.
\<close>

fun split :: "char \<Rightarrow> string \<Rightarrow> string list" where
  "split sep [] = [[]]"
| "split sep (c # cs) =
     (if c = sep then [] # split sep cs
      else (case split sep cs of
              [] \<Rightarrow> [[c]]
            | w # ws \<Rightarrow> (c # w) # ws))"

text \<open>
  \<open>Math.ceil(n / d)\<close> on a length \<open>n\<close> and the constant \<open>d\<close>. Lengths of strings are
  far below \<open>2^53\<close>, where the quotient of the doubles is the correctly rounded
  rational quotient and its ceiling is the ceiling of the exact quotient.
\<close>

definition Math_ceil_div :: "nat \<Rightarrow> nat \<Rightarrow> nat" where
  "Math_ceil_div n d = nat \<lceil>real n / real d\<rceil>"

section \<open>Data model\<close>

text \<open>\<open>interface Summary\<close>.\<close>

record Summary =
  url :: string
  title :: string
  summary :: string
  urduSummary :: string
  wordCount :: nat
  readingTime :: nat

text \<open>The four \<open>useState\<close> cells of \<open>BlogSummarizer\<close>.\<close>

record component_state =
  url_st :: string
  isLoading :: bool
  summary_st :: "Summary option"
  error_st :: string

text \<open>
  A thrown value: an instance of \<open>Error\<close> with its \<open>message\<close>, or anything else
  (\<open>error instanceof Error\<close> is what the source tests).
\<close>

datatype thrown = ErrorObject (message: string) | OtherValue

text \<open>What \<open>scrapeAndSummarize\<close> resolves to: the two fields the component reads.\<close>

record ScrapedData =
  resp_summary :: string
  resp_urduSummary :: string

text \<open>
  The decoded body of the proxy's response, as far as \<open>extractTitle\<close> looks at it:
  \<open>null\<close> (reading \<open>data.contents\<close> throws), or a value whose \<open>contents\<close> is handed
  to the HTML parser as the given string.
\<close>

datatype json_body = JNull | JContents string

record Response =
  ok :: bool
  json :: "thrown + json_body"

text \<open>The parts of a parsed \<open>URL\<close> object that the specification speaks of.\<close>

record URL =
  protocol :: string
  host :: string

text \<open>
  Everything the component calls and does not define: the \<open>URL\<close> constructor
  (\<open>None\<close>: it throws), \<open>encodeURIComponent\<close> (\<open>None\<close>: it throws), \<open>fetch\<close>
  (\<open>Inl\<close>: the promise rejects), the HTML parser followed by
  \<open>querySelector('title')?.textContent\<close> (\<open>None\<close>: no such element), and the imported
  \<open>scrapeAndSummarize\<close> (\<open>Inl\<close>: the promise rejects). Every call settles.
\<close>

record platform =
  new_URL :: "string \<Rightarrow> URL option"
  encodeURIComponent :: "string \<Rightarrow> string option"
  fetch :: "string \<Rightarrow> thrown + Response"
  title_textContent :: "string \<Rightarrow> string option"
  scrapeAndSummarize :: "string \<Rightarrow> thrown + ScrapedData"

section \<open>Effects\<close>

text \<open>The calls that leave the component, in the order they are made.\<close>

datatype event =
    ToastError string
  | ToastSuccess string
  | ConsoleError string
  | SetIsLoading bool
  | SetError string
  | SetSummary "Summary option"
  | Fetch string
  | ScrapeAndSummarize string
  | ClipboardWriteText string

text \<open>
  A computation: the events it emitted and either the value thrown (\<open>Inl\<close>) or the
  value returned (\<open>Inr\<close>).
\<close>

type_synonym 'a io = "event list \<times> (thrown + 'a)"

definition ret :: "'a \<Rightarrow> 'a io" where
  "ret x = ([], Inr x)"

definition throw :: "thrown \<Rightarrow> 'a io" where
  "throw e = ([], Inl e)"

definition emit :: "event \<Rightarrow> unit io" where
  "emit e = ([e], Inr ())"

definition lift :: "thrown + 'a \<Rightarrow> 'a io" where
  "lift r = ([], r)"

definition bind :: "'a io \<Rightarrow> ('a \<Rightarrow> 'b io) \<Rightarrow> 'b io" where
  "bind m f =
     (case m of
        (evs, Inl e) \<Rightarrow> (evs, Inl e)
      | (evs, Inr x) \<Rightarrow> (case f x of (evs', r) \<Rightarrow> (evs @ evs', r)))"

definition try_catch :: "'a io \<Rightarrow> (thrown \<Rightarrow> 'a io) \<Rightarrow> 'a io" where
  "try_catch m h =
     (case m of
        (evs, Inl e) \<Rightarrow> (case h e of (evs', r) \<Rightarrow> (evs @ evs', r))
      | (evs, Inr x) \<Rightarrow> (evs, Inr x))"

definition try_finally :: "'a io \<Rightarrow> unit io \<Rightarrow> 'a io" where
  "try_finally m fin =
     (case m of
        (evs, r) \<Rightarrow>
          (case fin of
             (evs', Inl e') \<Rightarrow> (evs @ evs', Inl e')
           | (evs', Inr u) \<Rightarrow> (evs @ evs', r)))"

text \<open>The effect of one event on the state cells: the setters write, the rest do not.\<close>

fun apply_event :: "component_state \<Rightarrow> event \<Rightarrow> component_state" where
  "apply_event st (SetIsLoading b) = st\<lparr>isLoading := b\<rparr>"
| "apply_event st (SetError m) = st\<lparr>error_st := m\<rparr>"
| "apply_event st (SetSummary r) = st\<lparr>summary_st := r\<rparr>"
| "apply_event st e = st"

definition apply_events :: "component_state \<Rightarrow> event list \<Rightarrow> component_state" where
  "apply_events st evs = foldl apply_event st evs"

fun is_network_call :: "event \<Rightarrow> bool" where
  "is_network_call (Fetch u) = True"
| "is_network_call (ScrapeAndSummarize u) = True"
| "is_network_call e = False"

section \<open>The component\<close>

definition isValidUrl :: "platform \<Rightarrow> string \<Rightarrow> bool" where
  "isValidUrl p string = (case new_URL p string of Some u \<Rightarrow> True | None \<Rightarrow> False)"

definition proxy_request :: "platform \<Rightarrow> string \<Rightarrow> string io" where
  "proxy_request p u =
     (case encodeURIComponent p u of
        None \<Rightarrow> throw (ErrorObject ''URI malformed'')
      | Some q \<Rightarrow> ret (''https://api.allorigins.win/get?url='' @ q))"

definition read_contents :: "json_body \<Rightarrow> string io" where
  "read_contents data =
     (case data of
        JNull \<Rightarrow> throw (ErrorObject ''Cannot read properties of null'')
      | JContents c \<Rightarrow> ret c)"

definition extractTitle :: "platform \<Rightarrow> string \<Rightarrow> string io" where
  "extractTitle p u =
     try_catch
       (bind (proxy_request p u) (\<lambda>req.
        bind (emit (Fetch req)) (\<lambda>_.
        bind (lift (fetch p req)) (\<lambda>response.
        bind (lift (json response)) (\<lambda>data.
        bind (read_contents data) (\<lambda>contents.
        let title = (case title_textContent p contents of
                       None \<Rightarrow> ''Untitled''
                     | Some t \<Rightarrow> if t = [] then ''Untitled'' else t)
        in ret (trim title)))))))
       (\<lambda>error.
        bind (emit (ConsoleError ''Error extracting title:'')) (\<lambda>_.
        ret ''Blog Post''))"

definition handleSubmit :: "platform \<Rightarrow> component_state \<Rightarrow> unit io" where
  "handleSubmit p st =
     (if trim (url_st st) = [] then emit (ToastError ''Please enter a blog URL'')
      else if \<not> isValidUrl p (url_st st) then emit (ToastError ''Please enter a valid URL'')
      else
        bind (emit (SetIsLoading True)) (\<lambda>_.
        bind (emit (SetError [])) (\<lambda>_.
        bind (emit (SetSummary None)) (\<lambda>_.
        try_finally
          (try_catch
            (bind (extractTitle p (url_st st)) (\<lambda>title.
             bind (emit (ScrapeAndSummarize (url_st st))) (\<lambda>_.
             bind (lift (scrapeAndSummarize p (url_st st))) (\<lambda>scrapedData.
             let summaryData =
                   \<lparr> url = url_st st,
                     title = title,
                     summary = resp_summary scrapedData,
                     urduSummary = resp_urduSummary scrapedData,
                     wordCount = length (split CHR '' '' (resp_summary scrapedData)),
                     readingTime =
                       Math_ceil_div (length (split CHR '' '' (resp_summary scrapedData))) 200 \<rparr>
             in
             bind (emit (SetSummary (Some summaryData))) (\<lambda>_.
             emit (ToastSuccess ''Blog summarized successfully!''))))))
            (\<lambda>error.
             bind (emit (ConsoleError ''Error:'')) (\<lambda>_.
             bind (emit (SetError (case error of
                                     ErrorObject m \<Rightarrow> m
                                   | OtherValue \<Rightarrow> ''Failed to process blog''))) (\<lambda>_.
             emit (ToastError ''Failed to process blog'')))))
          (emit (SetIsLoading False))))))"

text \<open>The state after a submission: the setters of the trace, applied in order.\<close>

definition submit :: "platform \<Rightarrow> component_state \<Rightarrow> component_state" where
  "submit p st = apply_events st (fst (handleSubmit p st))"

text \<open>The three \<open>onClick\<close> handlers of the result panel.\<close>

definition copySummary :: "Summary \<Rightarrow> unit io" where
  "copySummary r =
     bind (emit (ClipboardWriteText (summary r))) (\<lambda>_.
     emit (ToastSuccess ''Summary copied to clipboard!''))"

definition copyFullSummary :: "Summary \<Rightarrow> unit io" where
  "copyFullSummary r =
     (let text = ''Blog Summary'' @ [CHR 0x0A, CHR 0x0A] @ summary r in
      bind (emit (ClipboardWriteText text)) (\<lambda>_.
      emit (ToastSuccess ''Full summary copied!'')))"

definition copyUrduTranslation :: "Summary \<Rightarrow> unit io" where
  "copyUrduTranslation r =
     bind (emit (ClipboardWriteText (urduSummary r))) (\<lambda>_.
     emit (ToastSuccess ''Urdu translation copied!''))"

section \<open>Notions used to state the properties\<close>

text \<open>
  The HTML text that reaches the parser in \<open>extractTitle\<close>: \<open>None\<close> when a step before
  the parser throws (the request URL cannot be encoded, \<open>fetch\<close> rejects, the body is
  not JSON, or the decoded body is \<open>null\<close>). The \<open>ok\<close> flag of the response is not read.
\<close>

definition fetched_contents :: "platform \<Rightarrow> string \<Rightarrow> string option" where
  "fetched_contents p u =
     (case encodeURIComponent p u of
        None \<Rightarrow> None
      | Some q \<Rightarrow>
          (case fetch p (''https://api.allorigins.win/get?url='' @ q) of
             Inl e \<Rightarrow> None
           | Inr response \<Rightarrow>
               (case json response of
                  Inl e \<Rightarrow> None
                | Inr JNull \<Rightarrow> None
                | Inr (JContents c) \<Rightarrow> Some c)))"

text \<open>An event that stores a record in the \<open>summary\<close> cell.\<close>

fun produces_record :: "event \<Rightarrow> bool" where
  "produces_record (SetSummary (Some r)) = True"
| "produces_record e = False"

text \<open>
  The word count in the specification's words, for comparison with the source: the
  white-space-separated tokens of a string are its maximal runs of code units that
  are not white space. \<open>cur\<close> holds the run being read, reversed.
\<close>

fun tokens_from :: "string \<Rightarrow> string \<Rightarrow> string list" where
  "tokens_from cur [] = (if cur = [] then [] else [rev cur])"
| "tokens_from cur (c # cs) =
     (if isWhiteSpace c
      then (if cur = [] then tokens_from [] cs else rev cur # tokens_from [] cs)
      else tokens_from (c # cur) cs)"

definition whitespace_tokens :: "string \<Rightarrow> string list" where
  "whitespace_tokens s = tokens_from [] s"

section \<open>Sample platforms\<close>

text \<open>
  The answers of the platform's \<open>URL\<close> constructor and of \<open>encodeURIComponent\<close> at the
  two inputs used in the examples below: an \<open>https\<close> URL, and a \<open>mailto\<close> URL, which the
  constructor accepts and which has no host. Other inputs are not used; the tables
  answer them with \<open>None\<close>.
\<close>

definition sample_new_URL :: "string \<Rightarrow> URL option" where
  "sample_new_URL s =
     (if s = ''https://example.com/post''
      then Some \<lparr> protocol = ''https:'', host = ''example.com'' \<rparr>
      else if s = ''mailto:a@b.c''
      then Some \<lparr> protocol = ''mailto:'', host = [] \<rparr>
      else None)"

definition sample_encodeURIComponent :: "string \<Rightarrow> string option" where
  "sample_encodeURIComponent s =
     (if s = ''https://example.com/post'' then Some ''https%3A%2F%2Fexample.com%2Fpost''
      else if s = ''mailto:a@b.c'' then Some ''mailto%3Aa%40b.c''
      else None)"

text \<open>
  A platform whose proxy request settles as \<open>f\<close>, whose fetched document has the title
  text \<open>t\<close> (\<open>None\<close>: no title element) and whose summarization call settles as \<open>r\<close>.
\<close>

definition sample_platform ::
  "(thrown + Response) \<Rightarrow> string option \<Rightarrow> (thrown + ScrapedData) \<Rightarrow> platform" where
  "sample_platform f t r =
     \<lparr> new_URL = sample_new_URL,
       encodeURIComponent = sample_encodeURIComponent,
       fetch = (\<lambda>req. f),
       title_textContent = (\<lambda>html. t),
       scrapeAndSummarize = (\<lambda>u. r) \<rparr>"

definition page :: "thrown + Response" where
  "page = Inr \<lparr> ok = True, json = Inr (JContents ''<html><body>text</body></html>'') \<rparr>"

definition network_down :: "thrown + Response" where
  "network_down = Inl (ErrorObject ''Failed to fetch'')"

definition summarized :: "string \<Rightarrow> thrown + ScrapedData" where
  "summarized s = Inr \<lparr> resp_summary = s, resp_urduSummary = ''urdu'' \<rparr>"

definition idle :: "string \<Rightarrow> component_state" where
  "idle u = \<lparr> url_st = u, isLoading = False, summary_st = None, error_st = [] \<rparr>"

text \<open>A state that shows the result of an earlier submission.\<close>

definition showing_result :: "string \<Rightarrow> component_state" where
  "showing_result u =
     \<lparr> url_st = u, isLoading = False,
       summary_st = Some \<lparr> url = ''https://example.com/old'', title = ''Old'',
                           summary = ''old text'', urduSummary = ''urdu'',
                           wordCount = 2, readingTime = 1 \<rparr>,
       error_st = [] \<rparr>"

section \<open>Further notions and examples\<close>

text \<open>Words joined by single spaces.\<close>

fun join_spaces :: "string list \<Rightarrow> string" where
  "join_spaces [] = []"
| "join_spaces [w] = w"
| "join_spaces (w # ws) = w @ CHR '' '' # join_spaces ws"

text \<open>A list of \<open>n\<close> one-letter words.\<close>

definition one_letter_words :: "nat \<Rightarrow> string list" where
  "one_letter_words n = replicate n ''w''"

text \<open>A text of 600 one-letter words, single-spaced.\<close>

definition six_hundred_words :: string where
  "six_hundred_words = join_spaces (one_letter_words 600)"

text \<open>A text of the same 600 words, each followed by a space.\<close>

definition six_hundred_words_spaced :: string where
  "six_hundred_words_spaced = concat (map (\<lambda>w. w @ '' '') (one_letter_words 600))"

text \<open>
  The text on a clipboard that held \<open>c\<close>, after the events: the last text written,
  as a mocked \<open>navigator.clipboard\<close> records it.
\<close>

fun clipboard_after :: "string option \<Rightarrow> event list \<Rightarrow> string option" where
  "clipboard_after c [] = c"
| "clipboard_after c (ClipboardWriteText t # evs) = clipboard_after (Some t) evs"
| "clipboard_after c (e # evs) = clipboard_after c evs"

text \<open>
  The copy buttons that are rendered, with their handlers: the panels that hold them
  are rendered when the \<open>summary\<close> cell holds a record.
\<close>

definition onClick_handlers :: "component_state \<Rightarrow> unit io list" where
  "onClick_handlers st =
     (case summary_st st of
        None \<Rightarrow> []
      | Some r \<Rightarrow> [copySummary r, copyFullSummary r, copyUrduTranslation r])"

text \<open>
  Every network call in the trace is made in a loading state without error and
  without result; the state is followed along the trace.
\<close>

fun calls_while_loading :: "component_state \<Rightarrow> event list \<Rightarrow> bool" where
  "calls_while_loading st [] = True"
| "calls_while_loading st (e # evs) =
     ((if is_network_call e
       then isLoading st \<and> error_st st = [] \<and> summary_st st = None
       else True)
      \<and> calls_while_loading (apply_event st e) evs)"

text \<open>A response that is not OK and whose body carries a page with a title.\<close>

definition not_found_page :: "thrown + Response" where
  "not_found_page =
     Inr \<lparr> ok = False,
           json = Inr (JContents ''<html><head><title>Not Found</title></head></html>'') \<rparr>"

section \<open>Auxiliary facts\<close>

lemmas io_defs = bind_def try_catch_def try_finally_def ret_def throw_def emit_def lift_def

lemma length_split: "length (split sep s) = Suc (count_list s sep)"
  by (induction s) (auto split: list.splits)

lemma ceiling_real_div_nat: "\<lceil>real n / real d\<rceil> = - (- int n div int d)"
proof -
  have "real n / real d = real_of_int (int n) / real_of_int (int d)" by simp
  then show ?thesis by (simp only: ceiling_divide_eq_div)
qed

lemma Math_ceil_div_200: "Math_ceil_div n 200 = (n + 199) div 200"
proof -
  have "\<lceil>real n / real (200::nat)\<rceil> = - (- int n div int 200)"
    by (rule ceiling_real_div_nat)
  also have "\<dots> = (int n + 199) div 200" by simp
  also have "\<dots> = int ((n + 199) div 200)" by (simp add: zdiv_int)
  finally show ?thesis by (simp add: Math_ceil_div_def)
qed

lemma Math_ceil_div_ceiling: "int (Math_ceil_div n 200) = \<lceil>real n / 200\<rceil>"
proof -
  have "0 \<le> real n / 200" by simp
  then have "0 \<le> \<lceil>real n / 200\<rceil>" by (simp only: zero_le_ceiling)
  then show ?thesis by (simp add: Math_ceil_div_def)
qed

lemma ceil_div_200_lower: "0 < n \<Longrightarrow> 200 * ((n + 199) div 200 - 1) < (n::nat)"
  by arith

lemma ceil_div_200_upper: "(n::nat) \<le> 200 * ((n + 199) div 200)"
  by arith

text \<open>\<open>extractTitle\<close>, with its \<open>try\<close> and \<open>catch\<close> unfolded, path by path.\<close>

lemma extractTitle_cases:
  "extractTitle p u =
     (case encodeURIComponent p u of
        None \<Rightarrow> ([ConsoleError ''Error extracting title:''], Inr ''Blog Post'')
      | Some q \<Rightarrow>
         (case fetch p (''https://api.allorigins.win/get?url='' @ q) of
            Inl e \<Rightarrow> ([Fetch (''https://api.allorigins.win/get?url='' @ q),
                       ConsoleError ''Error extracting title:''], Inr ''Blog Post'')
          | Inr response \<Rightarrow>
             (case json response of
                Inl e \<Rightarrow> ([Fetch (''https://api.allorigins.win/get?url='' @ q),
                       ConsoleError ''Error extracting title:''], Inr ''Blog Post'')
              | Inr JNull \<Rightarrow> ([Fetch (''https://api.allorigins.win/get?url='' @ q),
                       ConsoleError ''Error extracting title:''], Inr ''Blog Post'')
              | Inr (JContents c) \<Rightarrow>
                  ([Fetch (''https://api.allorigins.win/get?url='' @ q)],
                   Inr (trim (case title_textContent p c of
                                None \<Rightarrow> ''Untitled''
                              | Some t \<Rightarrow> if t = [] then ''Untitled'' else t))))))"
  by (simp add: extractTitle_def proxy_request_def read_contents_def io_defs
      split: option.splits sum.splits json_body.splits)

lemma extractTitle_returns: "\<exists>evs t. extractTitle p u = (evs, Inr t)"
  by (simp add: extractTitle_cases split: option.splits sum.splits json_body.splits)

lemma extractTitle_no_setters:
  "extractTitle p u = (evs, r) \<Longrightarrow> foldl apply_event st evs = st"
  by (auto simp add: extractTitle_cases split: option.splits sum.splits json_body.splits)

text \<open>The two paths of a submission that passes both checks.\<close>

lemma handleSubmit_resolved:
  assumes "trim (url_st st) \<noteq> []" and "isValidUrl p (url_st st)"
    and "extractTitle p (url_st st) = (tevs, Inr t)"
    and "scrapeAndSummarize p (url_st st) = Inr d"
  shows "handleSubmit p st =
    ([SetIsLoading True, SetError [], SetSummary None] @ tevs @
     [ScrapeAndSummarize (url_st st),
      SetSummary (Some \<lparr> url = url_st st, title = t, summary = resp_summary d,
                        urduSummary = resp_urduSummary d,
                        wordCount = length (split CHR '' '' (resp_summary d)),
                        readingTime =
                          Math_ceil_div (length (split CHR '' '' (resp_summary d))) 200 \<rparr>),
      ToastSuccess ''Blog summarized successfully!'',
      SetIsLoading False], Inr ())"
  using assms by (simp add: handleSubmit_def io_defs)

lemma handleSubmit_rejected:
  assumes "trim (url_st st) \<noteq> []" and "isValidUrl p (url_st st)"
    and "extractTitle p (url_st st) = (tevs, Inr t)"
    and "scrapeAndSummarize p (url_st st) = Inl e"
  shows "handleSubmit p st =
    ([SetIsLoading True, SetError [], SetSummary None] @ tevs @
     [ScrapeAndSummarize (url_st st),
      ConsoleError ''Error:'',
      SetError (case e of ErrorObject m \<Rightarrow> m | OtherValue \<Rightarrow> ''Failed to process blog''),
      ToastError ''Failed to process blog'',
      SetIsLoading False], Inr ())"
  using assms by (simp add: handleSubmit_def io_defs)

lemma submit_resolved:
  assumes "trim (url_st st) \<noteq> []" and "isValidUrl p (url_st st)"
    and "extractTitle p (url_st st) = (tevs, Inr t)"
    and "scrapeAndSummarize p (url_st st) = Inr d"
  shows "submit p st =
    st\<lparr> isLoading := False, error_st := [],
        summary_st := Some \<lparr> url = url_st st, title = t, summary = resp_summary d,
                        urduSummary = resp_urduSummary d,
                        wordCount = length (split CHR '' '' (resp_summary d)),
                        readingTime =
                          Math_ceil_div (length (split CHR '' '' (resp_summary d))) 200 \<rparr> \<rparr>"
  using assms extractTitle_no_setters[OF assms(3)]
  by (simp add: submit_def apply_events_def handleSubmit_resolved[OF assms])

lemma submit_rejected:
  assumes "trim (url_st st) \<noteq> []" and "isValidUrl p (url_st st)"
    and "extractTitle p (url_st st) = (tevs, Inr t)"
    and "scrapeAndSummarize p (url_st st) = Inl e"
  shows "submit p st =
    st\<lparr> isLoading := False, summary_st := None,
        error_st := (case e of ErrorObject m \<Rightarrow> m | OtherValue \<Rightarrow> ''Failed to process blog'') \<rparr>"
  using assms extractTitle_no_setters[OF assms(3)]
  by (simp add: submit_def apply_events_def handleSubmit_rejected[OF assms])

lemma sample_url_nonblank: "trim ''https://example.com/post'' \<noteq> []"
  by (simp add: trim_def isWhiteSpace_def)

lemma sample_url_valid: "isValidUrl (sample_platform f t r) ''https://example.com/post''"
  by (simp add: isValidUrl_def sample_platform_def sample_new_URL_def)

lemma sample_scrape: "scrapeAndSummarize (sample_platform f t r) u = r"
  by (simp add: sample_platform_def)

lemma url_st_idle: "url_st (idle u) = u"
  by (simp add: idle_def)

lemma tokens_from_word:
  "\<not> list_ex isWhiteSpace w \<Longrightarrow> tokens_from cur (w @ rest) = tokens_from (rev w @ cur) rest"
  by (induction w arbitrary: cur) simp_all

lemma tokens_from_join:
  "ws \<noteq> [] \<Longrightarrow> list_all (\<lambda>w. w \<noteq> [] \<and> \<not> list_ex isWhiteSpace w) ws \<Longrightarrow>
   tokens_from cur (join_spaces ws) = (rev cur @ hd ws) # tl ws"
proof (induction ws arbitrary: cur rule: join_spaces.induct)
  case 1
  then show ?case by simp
next
  case (2 w)
  then show ?case
    using tokens_from_word[of w cur "[]"] by simp
next
  case (3 w v vs)
  have sp: "isWhiteSpace CHR '' ''" by (simp add: isWhiteSpace_def)
  have "tokens_from cur (join_spaces (w # v # vs))
        = tokens_from (rev w @ cur) (CHR '' '' # join_spaces (v # vs))"
    using 3(3) tokens_from_word[of w cur "CHR '' '' # join_spaces (v # vs)"] by simp
  also have "\<dots> = (rev cur @ w) # tokens_from [] (join_spaces (v # vs))"
    using 3(3) sp by simp
  also have "tokens_from [] (join_spaces (v # vs)) = v # vs"
    using 3(1)[of "[]"] 3(3) by simp
  finally show ?case by simp
qed

lemma no_space_in_word: "\<not> list_ex isWhiteSpace w \<Longrightarrow> count_list w CHR '' '' = 0"
  by (induction w) (auto simp add: isWhiteSpace_def)

lemma count_list_append: "count_list (xs @ ys) c = count_list xs c + count_list ys c"
  by (induction xs) simp_all

lemma count_spaces_join:
  "ws \<noteq> [] \<Longrightarrow> list_all (\<lambda>w. w \<noteq> [] \<and> \<not> list_ex isWhiteSpace w) ws \<Longrightarrow>
   Suc (count_list (join_spaces ws) CHR '' '') = length ws"
  by (induction ws rule: join_spaces.induct)
     (simp_all add: no_space_in_word count_list_append)

lemma split_agrees_on_single_spaced:
  assumes "ws \<noteq> []" and "list_all (\<lambda>w. w \<noteq> [] \<and> \<not> list_ex isWhiteSpace w) ws"
  shows "length (split CHR '' '' (join_spaces ws)) = length (whitespace_tokens (join_spaces ws))"
  using assms tokens_from_join[OF assms, of "[]"] count_spaces_join[OF assms]
  by (simp add: length_split whitespace_tokens_def)

lemma whitespace_tokens_join:
  assumes "ws \<noteq> []" and "list_all (\<lambda>w. w \<noteq> [] \<and> \<not> list_ex isWhiteSpace w) ws"
  shows "whitespace_tokens (join_spaces ws) = ws"
  using assms(1) tokens_from_join[OF assms, of "[]"]
  by (simp add: whitespace_tokens_def)

lemma length_split_join:
  assumes "ws \<noteq> []" and "list_all (\<lambda>w. w \<noteq> [] \<and> \<not> list_ex isWhiteSpace w) ws"
  shows "length (split CHR '' '' (join_spaces ws)) = length ws"
  using count_spaces_join[OF assms] by (simp add: length_split)

lemma length_one_letter_words: "length (one_letter_words n) = n"
  by (simp add: one_letter_words_def)

lemma one_letter_words_nonempty: "0 < n \<Longrightarrow> one_letter_words n \<noteq> []"
  by (cases n) (simp_all add: one_letter_words_def)

lemma one_letter_words_plain:
  "list_all (\<lambda>w. w \<noteq> [] \<and> \<not> list_ex isWhiteSpace w) (one_letter_words n)"
  by (induction n) (simp_all add: one_letter_words_def isWhiteSpace_def)

lemma length_split_six_hundred: "length (split CHR '' '' six_hundred_words) = 600"
  unfolding six_hundred_words_def
  by (simp add: length_split_join one_letter_words_nonempty one_letter_words_plain
      length_one_letter_words)

lemma count_spaces_spaced:
  "count_list (concat (map (\<lambda>w. w @ '' '') (one_letter_words n))) CHR '' '' = n"
  by (induction n) (simp_all add: one_letter_words_def)

lemma tokens_spaced:
  "tokens_from [] (concat (map (\<lambda>w. w @ '' '') (one_letter_words n))) = one_letter_words n"
  by (induction n) (simp_all add: one_letter_words_def isWhiteSpace_def)

lemma length_split_six_hundred_spaced:
  "length (split CHR '' '' six_hundred_words_spaced) = 601"
  by (simp add: six_hundred_words_spaced_def length_split count_spaces_spaced)

lemma length_tokens_six_hundred_spaced:
  "length (whitespace_tokens six_hundred_words_spaced) = 600"
  by (simp add: six_hundred_words_spaced_def whitespace_tokens_def tokens_spaced
      length_one_letter_words)

lemma sample_submit_resolved:
  "summary_st (submit (sample_platform f t0 (summarized s)) (idle ''https://example.com/post''))
   = Some \<lparr> url = ''https://example.com/post'',
              title = (case snd (extractTitle (sample_platform f t0 (summarized s))
                                   ''https://example.com/post'') of Inr t \<Rightarrow> t | Inl e \<Rightarrow> []),
              summary = s, urduSummary = ''urdu'',
              wordCount = length (split CHR '' '' s),
              readingTime = Math_ceil_div (length (split CHR '' '' s)) 200 \<rparr>"
proof -
  let ?p = "sample_platform f t0 (summarized s)"
  let ?st = "idle ''https://example.com/post''"
  obtain tevs t where et: "extractTitle ?p (url_st ?st) = (tevs, Inr t)"
    using extractTitle_returns by blast
  have a: "trim (url_st ?st) \<noteq> []" by (simp add: url_st_idle sample_url_nonblank)
  have b: "isValidUrl ?p (url_st ?st)" by (simp add: url_st_idle sample_url_valid)
  have c: "scrapeAndSummarize ?p (url_st ?st) = Inr \<lparr> resp_summary = s, resp_urduSummary = ''urdu'' \<rparr>"
    by (simp add: sample_scrape summarized_def)
  show ?thesis
    using et by (simp add: submit_resolved[OF a b et c] url_st_idle)
qed

section \<open>Word count and reading time\<close>

text \<open>
  C9: when the summarization call resolves with the empty string as summary, the
  record stored by the submission has \<open>wordCount\<close> 1 and \<open>readingTime\<close> 1: splitting the
  empty string at spaces gives one empty piece.
\<close>

theorem empty_summary_counts_one:
  assumes "trim (url_st st) \<noteq> []" and "isValidUrl p (url_st st)"
    and "scrapeAndSummarize p (url_st st) = Inr d"
    and "resp_summary d = []"
  shows "split CHR '' '' (resp_summary d) = [[]]
       \<and> map_option wordCount (summary_st (submit p st)) = Some 1
       \<and> map_option readingTime (summary_st (submit p st)) = Some 1"
proof -
  obtain tevs t where et: "extractTitle p (url_st st) = (tevs, Inr t)"
    using extractTitle_returns by blast
  show ?thesis
    using assms(4)
    by (simp add: submit_resolved[OF assms(1,2) et assms(3)] Math_ceil_div_200)
qed

theorem empty_summary_counts_one_witness:
  "map_option wordCount
     (summary_st (submit (sample_platform page (Some ''A Post'') (summarized []))
                    (idle ''https://example.com/post''))) = Some 1
   \<and> map_option readingTime
     (summary_st (submit (sample_platform page (Some ''A Post'') (summarized []))
                    (idle ''https://example.com/post''))) = Some 1"
  using empty_summary_counts_one
    [of "idle ''https://example.com/post''"
        "sample_platform page (Some ''A Post'') (summarized [])"
        "\<lparr> resp_summary = [], resp_urduSummary = ''urdu'' \<rparr>"]
  by (simp add: url_st_idle sample_url_nonblank sample_url_valid sample_scrape summarized_def)

text \<open>
  C6, as amended: the record stored by a successful submission has
  \<open>readingTime = ceil(wordCount / 200)\<close> for the \<open>wordCount\<close> that the source computes, the
  number of pieces of \<open>summary.split(' ')\<close>: the least number of 200-word blocks that
  hold \<open>wordCount\<close> words. When the summary consists of non-empty words without white
  space joined by single spaces, those words are its white-space-separated tokens,
  \<open>wordCount\<close> is their number, and 600 words give 3 and 4 words give 1.
\<close>

theorem readingTime_is_ceiling:
  assumes "trim (url_st st) \<noteq> []" and "isValidUrl p (url_st st)"
    and "scrapeAndSummarize p (url_st st) = Inr d"
  shows "\<exists>r. summary_st (submit p st) = Some r
           \<and> summary r = resp_summary d
           \<and> wordCount r = length (split CHR '' '' (summary r))
           \<and> int (readingTime r) = \<lceil>real (wordCount r) / 200\<rceil>
           \<and> 200 * (readingTime r - 1) < wordCount r
           \<and> wordCount r \<le> 200 * readingTime r
           \<and> (\<forall>ws. ws \<noteq> []
                  \<and> list_all (\<lambda>w. w \<noteq> [] \<and> \<not> list_ex isWhiteSpace w) ws
                  \<and> summary r = join_spaces ws
                 \<longrightarrow> whitespace_tokens (summary r) = ws
                   \<and> wordCount r = length ws
                   \<and> int (readingTime r) = \<lceil>real (length ws) / 200\<rceil>
                   \<and> (length ws = 600 \<longrightarrow> readingTime r = 3)
                   \<and> (length ws = 4 \<longrightarrow> readingTime r = 1))"
proof -
  obtain tevs t where et: "extractTitle p (url_st st) = (tevs, Inr t)"
    using extractTitle_returns by blast
  let ?s = "resp_summary d"
  let ?n = "length (split CHR '' '' ?s)"
  let ?r = "\<lparr> url = url_st st, title = t, summary = ?s,
             urduSummary = resp_urduSummary d, wordCount = ?n,
             readingTime = Math_ceil_div ?n 200 \<rparr>"
  have pos: "0 < ?n" by (simp add: length_split)
  have c: "int (Math_ceil_div ?n 200) = \<lceil>real ?n / 200\<rceil>"
    by (rule Math_ceil_div_ceiling)
  have lo: "200 * (Math_ceil_div ?n 200 - 1) < ?n"
    unfolding Math_ceil_div_200 using pos by (rule ceil_div_200_lower)
  have hi: "?n \<le> 200 * Math_ceil_div ?n 200"
    unfolding Math_ceil_div_200 by (rule ceil_div_200_upper)
  have words: "whitespace_tokens ?s = ws \<and> ?n = length ws
        \<and> int (Math_ceil_div ?n 200) = \<lceil>real (length ws) / 200\<rceil>
        \<and> (length ws = 600 \<longrightarrow> Math_ceil_div ?n 200 = 3)
        \<and> (length ws = 4 \<longrightarrow> Math_ceil_div ?n 200 = 1)"
    if w: "ws \<noteq> []" "list_all (\<lambda>w. w \<noteq> [] \<and> \<not> list_ex isWhiteSpace w) ws"
      and j: "?s = join_spaces ws" for ws
  proof -
    have n: "?n = length ws" unfolding j by (rule length_split_join[OF w])
    have tk: "whitespace_tokens ?s = ws" unfolding j by (rule whitespace_tokens_join[OF w])
    have "int (Math_ceil_div (length ws) 200) = \<lceil>real (length ws) / 200\<rceil>"
      by (rule Math_ceil_div_ceiling)
    moreover have "length ws = 600 \<longrightarrow> Math_ceil_div (length ws) 200 = 3"
      by (simp add: Math_ceil_div_200)
    moreover have "length ws = 4 \<longrightarrow> Math_ceil_div (length ws) 200 = 1"
      by (simp add: Math_ceil_div_200)
    ultimately show ?thesis using n tk by simp
  qed
  have s: "summary_st (submit p st) = Some ?r"
    by (simp add: submit_resolved[OF assms(1,2) et assms(3)])
  have "summary ?r = ?s" "wordCount ?r = ?n" "readingTime ?r = Math_ceil_div ?n 200"
    by simp_all
  moreover have "Math_ceil_div 600 200 = 3" "Math_ceil_div 4 200 = 1"
    by (simp_all add: Math_ceil_div_200)
  ultimately show ?thesis
    using s c lo hi words
    by (intro exI[of _ ?r]) (simp del: One_nat_def add: Math_ceil_div_ceiling)
qed

text \<open>
  Six hundred words, each followed by a space: 600 white-space-separated tokens,
  for which the source counts 601 pieces and a reading time of 4.
\<close>

theorem readingTime_trailing_space_counterexample:
  "length (whitespace_tokens six_hundred_words_spaced) = 600
   \<and> map_option wordCount
       (summary_st (submit (sample_platform page (Some ''A Post'')
                              (summarized six_hundred_words_spaced))
                      (idle ''https://example.com/post''))) = Some 601
   \<and> map_option readingTime
       (summary_st (submit (sample_platform page (Some ''A Post'')
                              (summarized six_hundred_words_spaced))
                      (idle ''https://example.com/post''))) = Some 4"
  by (simp add: sample_submit_resolved length_split_six_hundred_spaced
      length_tokens_six_hundred_spaced Math_ceil_div_200)

theorem readingTime_is_ceiling_witness:
  "(\<exists>r. summary_st (submit (sample_platform page (Some ''A Post'') (summarized six_hundred_words))
                       (idle ''https://example.com/post'')) = Some r
        \<and> length (whitespace_tokens (summary r)) = 600
        \<and> wordCount r = 600 \<and> readingTime r = 3)
   \<and> (\<exists>r. summary_st (submit (sample_platform page (Some ''A Post'') (summarized ''a b c d''))
                       (idle ''https://example.com/post'')) = Some r
        \<and> length (whitespace_tokens (summary r)) = 4
        \<and> wordCount r = 4 \<and> readingTime r = 1)"
proof -
  let ?st = "idle ''https://example.com/post''"
  let ?p = "sample_platform page (Some ''A Post'') (summarized six_hundred_words)"
  let ?q = "sample_platform page (Some ''A Post'') (summarized ''a b c d'')"
  let ?plain = "\<lambda>w. w \<noteq> [] \<and> \<not> list_ex isWhiteSpace w"
  have st: "trim (url_st ?st) \<noteq> []"
    by (simp add: url_st_idle sample_url_nonblank)
  have p: "isValidUrl ?p (url_st ?st)" and q: "isValidUrl ?q (url_st ?st)"
    by (simp_all add: url_st_idle sample_url_valid)
  have dp: "scrapeAndSummarize ?p (url_st ?st)
            = Inr \<lparr> resp_summary = six_hundred_words, resp_urduSummary = ''urdu'' \<rparr>"
    and dq: "scrapeAndSummarize ?q (url_st ?st)
            = Inr \<lparr> resp_summary = ''a b c d'', resp_urduSummary = ''urdu'' \<rparr>"
    by (simp_all add: sample_scrape summarized_def)
  from readingTime_is_ceiling[OF st p dp]
  obtain r where all:
    "summary_st (submit ?p ?st) = Some r
           \<and> summary r = resp_summary \<lparr> resp_summary = six_hundred_words, resp_urduSummary = ''urdu'' \<rparr>
           \<and> wordCount r = length (split CHR '' '' (summary r))
           \<and> int (readingTime r) = \<lceil>real (wordCount r) / 200\<rceil>
           \<and> 200 * (readingTime r - 1) < wordCount r
           \<and> wordCount r \<le> 200 * readingTime r
           \<and> (\<forall>ws. ws \<noteq> []
                  \<and> list_all (\<lambda>w. w \<noteq> [] \<and> \<not> list_ex isWhiteSpace w) ws
                  \<and> summary r = join_spaces ws
                 \<longrightarrow> whitespace_tokens (summary r) = ws
                   \<and> wordCount r = length ws
                   \<and> int (readingTime r) = \<lceil>real (length ws) / 200\<rceil>
                   \<and> (length ws = 600 \<longrightarrow> readingTime r = 3)
                   \<and> (length ws = 4 \<longrightarrow> readingTime r = 1))" ..
  from readingTime_is_ceiling[OF st q dq]
  obtain r' where all':
    "summary_st (submit ?q ?st) = Some r'
           \<and> summary r' = resp_summary \<lparr> resp_summary = ''a b c d'', resp_urduSummary = ''urdu'' \<rparr>
           \<and> wordCount r' = length (split CHR '' '' (summary r'))
           \<and> int (readingTime r') = \<lceil>real (wordCount r') / 200\<rceil>
           \<and> 200 * (readingTime r' - 1) < wordCount r'
           \<and> wordCount r' \<le> 200 * readingTime r'
           \<and> (\<forall>ws. ws \<noteq> []
                  \<and> list_all (\<lambda>w. w \<noteq> [] \<and> \<not> list_ex isWhiteSpace w) ws
                  \<and> summary r' = join_spaces ws
                 \<longrightarrow> whitespace_tokens (summary r') = ws
                   \<and> wordCount r' = length ws
                   \<and> int (readingTime r') = \<lceil>real (length ws) / 200\<rceil>
                   \<and> (length ws = 600 \<longrightarrow> readingTime r' = 3)
                   \<and> (length ws = 4 \<longrightarrow> readingTime r' = 1))" ..
  note r = all[THEN conjunct1] and r' = all'[THEN conjunct1]
  note rw = all[THEN conjunct2, THEN conjunct2, THEN conjunct2, THEN conjunct2, THEN conjunct2, THEN conjunct2]
  note rw' = all'[THEN conjunct2, THEN conjunct2, THEN conjunct2, THEN conjunct2, THEN conjunct2, THEN conjunct2]
  have rs: "summary r = six_hundred_words"
    using all[THEN conjunct2, THEN conjunct1] by simp
  have rs': "summary r' = ''a b c d''"
    using all'[THEN conjunct2, THEN conjunct1] by simp
  have "one_letter_words 600 \<noteq> [] \<and> list_all ?plain (one_letter_words 600)
        \<and> summary r = join_spaces (one_letter_words 600)"
    using rs by (simp add: one_letter_words_nonempty one_letter_words_plain six_hundred_words_def)
  then have a: "whitespace_tokens (summary r) = one_letter_words 600
        \<and> wordCount r = length (one_letter_words 600)
        \<and> int (readingTime r) = \<lceil>real (length (one_letter_words 600)) / 200\<rceil>
        \<and> (length (one_letter_words 600) = 600 \<longrightarrow> readingTime r = 3)
        \<and> (length (one_letter_words 600) = 4 \<longrightarrow> readingTime r = 1)"
    by (rule rw[rule_format])
  have "[''a'', ''b'', ''c'', ''d''] \<noteq> [] \<and> list_all ?plain [''a'', ''b'', ''c'', ''d'']
        \<and> summary r' = join_spaces [''a'', ''b'', ''c'', ''d'']"
    using rs' by (simp add: isWhiteSpace_def)
  then have b: "whitespace_tokens (summary r') = [''a'', ''b'', ''c'', ''d'']
        \<and> wordCount r' = length [''a'', ''b'', ''c'', ''d'']
        \<and> int (readingTime r') = \<lceil>real (length [''a'', ''b'', ''c'', ''d'']) / 200\<rceil>
        \<and> (length [''a'', ''b'', ''c'', ''d''] = 600 \<longrightarrow> readingTime r' = 3)
        \<and> (length [''a'', ''b'', ''c'', ''d''] = 4 \<longrightarrow> readingTime r' = 1)"
    by (rule rw'[rule_format])
  have "length (whitespace_tokens (summary r)) = 600 \<and> wordCount r = 600 \<and> readingTime r = 3"
    using a by (simp add: length_one_letter_words)
  moreover have "length (whitespace_tokens (summary r')) = 4 \<and> wordCount r' = 4
                 \<and> readingTime r' = 1"
    using b by simp
  ultimately show ?thesis using r r' by simp
qed

text \<open>
  C2, as amended: the \<open>wordCount\<close> of the record stored by a successful submission is
  the number of pieces of \<open>summary.split(' ')\<close>, one more than the number of space
  characters in the summary. It is the number of white-space-separated tokens when
  the summary consists of non-empty words without white space joined by single
  spaces; for \<open>a b c d\<close> it is 4.
\<close>

theorem wordCount_counts_split_pieces:
  assumes "trim (url_st st) \<noteq> []" and "isValidUrl p (url_st st)"
    and "scrapeAndSummarize p (url_st st) = Inr d"
  shows "\<exists>r. summary_st (submit p st) = Some r
           \<and> summary r = resp_summary d
           \<and> wordCount r = length (split CHR '' '' (summary r))
           \<and> wordCount r = Suc (count_list (summary r) CHR '' '')
           \<and> (summary r = ''a b c d'' \<longrightarrow> wordCount r = 4)
           \<and> (\<forall>ws. ws \<noteq> []
                  \<and> list_all (\<lambda>w. w \<noteq> [] \<and> \<not> list_ex isWhiteSpace w) ws
                  \<and> summary r = join_spaces ws
                 \<longrightarrow> wordCount r = length (whitespace_tokens (summary r)))"
proof -
  obtain tevs t where et: "extractTitle p (url_st st) = (tevs, Inr t)"
    using extractTitle_returns by blast
  show ?thesis
    by (simp add: submit_resolved[OF assms(1,2) et assms(3)] length_split)
       (metis length_split split_agrees_on_single_spaced)
qed

text \<open>
  With two spaces between two words the source counts three pieces, the empty piece
  between the spaces included, where the text has two white-space-separated tokens.
\<close>

theorem wordCount_whitespace_tokens_counterexample:
  "map_option wordCount
     (summary_st (submit (sample_platform page (Some ''A Post'') (summarized ''a  b''))
                    (idle ''https://example.com/post''))) = Some 3
   \<and> length (whitespace_tokens ''a  b'') = 2"
  by (simp add: sample_submit_resolved whitespace_tokens_def isWhiteSpace_def)

theorem wordCount_counts_split_pieces_witness:
  "\<exists>r. summary_st (submit (sample_platform page (Some ''A Post'') (summarized ''a b c d''))
                      (idle ''https://example.com/post'')) = Some r
       \<and> summary r = ''a b c d'' \<and> wordCount r = 4
       \<and> wordCount r = length (whitespace_tokens (summary r))"
proof -
  let ?st = "idle ''https://example.com/post''"
  let ?q = "sample_platform page (Some ''A Post'') (summarized ''a b c d'')"
  have st: "trim (url_st ?st) \<noteq> []"
    by (simp add: url_st_idle sample_url_nonblank)
  have q: "isValidUrl ?q (url_st ?st)"
    by (simp add: url_st_idle sample_url_valid)
  have dq: "scrapeAndSummarize ?q (url_st ?st)
            = Inr \<lparr> resp_summary = ''a b c d'', resp_urduSummary = ''urdu'' \<rparr>"
    by (simp add: sample_scrape summarized_def)
  have w: "list_all (\<lambda>w. w \<noteq> [] \<and> \<not> list_ex isWhiteSpace w) [''a'', ''b'', ''c'', ''d'']"
    by (simp add: isWhiteSpace_def)
  from wordCount_counts_split_pieces[OF st q dq]
  obtain r where r:
    "summary_st (submit ?q ?st) = Some r
     \<and> summary r = resp_summary \<lparr> resp_summary = ''a b c d'', resp_urduSummary = ''urdu'' \<rparr>
     \<and> wordCount r = length (split CHR '' '' (summary r))
     \<and> wordCount r = Suc (count_list (summary r) CHR '' '')
     \<and> (summary r = ''a b c d'' \<longrightarrow> wordCount r = 4)
     \<and> (\<forall>ws. ws \<noteq> []
            \<and> list_all (\<lambda>w. w \<noteq> [] \<and> \<not> list_ex isWhiteSpace w) ws
            \<and> summary r = join_spaces ws
           \<longrightarrow> wordCount r = length (whitespace_tokens (summary r)))" ..
  note r1 = r[THEN conjunct1]
  note r2 = r[THEN conjunct2, THEN conjunct1]
  note r5 = r[THEN conjunct2, THEN conjunct2, THEN conjunct2, THEN conjunct2, THEN conjunct1]
  note r6 = r[THEN conjunct2, THEN conjunct2, THEN conjunct2, THEN conjunct2, THEN conjunct2]
  have s: "summary r = ''a b c d''" using r2 by simp
  have "[''a'', ''b'', ''c'', ''d''] \<noteq> []
        \<and> list_all (\<lambda>w. w \<noteq> [] \<and> \<not> list_ex isWhiteSpace w) [''a'', ''b'', ''c'', ''d'']
        \<and> summary r = join_spaces [''a'', ''b'', ''c'', ''d'']"
    using w s by simp
  then have t: "wordCount r = length (whitespace_tokens (summary r))"
    by (rule r6[rule_format])
  have "wordCount r = 4" using r5 s by simp
  then show ?thesis using r1 s t by simp
qed

lemma calls_while_loading_append:
  "calls_while_loading st (xs @ ys) =
     (calls_while_loading st xs \<and> calls_while_loading (foldl apply_event st xs) ys)"
  by (induction xs arbitrary: st) auto

lemma extractTitle_calls_while_loading:
  "isLoading st \<Longrightarrow> error_st st = [] \<Longrightarrow> summary_st st = None \<Longrightarrow>
   calls_while_loading st (fst (extractTitle p u))"
  by (simp add: extractTitle_cases split: option.splits sum.splits json_body.splits)

lemma extractTitle_no_scrape:
  "ScrapeAndSummarize v \<notin> set (fst (extractTitle p u))"
  by (simp add: extractTitle_cases split: option.splits sum.splits json_body.splits)

lemma extractTitle_fst_no_setters: "foldl apply_event st (fst (extractTitle p u)) = st"
  using extractTitle_no_setters[of p u "fst (extractTitle p u)" "snd (extractTitle p u)" st]
  by simp

lemma handleSubmit_trace:
  assumes "trim (url_st st) \<noteq> []" and "isValidUrl p (url_st st)"
  shows "handleSubmit p st =
    ([SetIsLoading True, SetError [], SetSummary None] @ fst (extractTitle p (url_st st)) @
     ScrapeAndSummarize (url_st st) #
     (case scrapeAndSummarize p (url_st st) of
        Inr d \<Rightarrow>
          [SetSummary (Some \<lparr> url = url_st st,
                              title = (case snd (extractTitle p (url_st st)) of
                                         Inr t \<Rightarrow> t | Inl e \<Rightarrow> []),
                              summary = resp_summary d,
                              urduSummary = resp_urduSummary d,
                              wordCount = length (split CHR '' '' (resp_summary d)),
                              readingTime =
                                Math_ceil_div (length (split CHR '' '' (resp_summary d))) 200 \<rparr>),
           ToastSuccess ''Blog summarized successfully!'',
           SetIsLoading False]
      | Inl e \<Rightarrow>
          [ConsoleError ''Error:'',
           SetError (case e of ErrorObject m \<Rightarrow> m | OtherValue \<Rightarrow> ''Failed to process blog''),
           ToastError ''Failed to process blog'',
           SetIsLoading False]), Inr ())"
proof -
  obtain tevs t where et: "extractTitle p (url_st st) = (tevs, Inr t)"
    using extractTitle_returns by blast
  show ?thesis
  proof (cases "scrapeAndSummarize p (url_st st)")
    case (Inl e)
    then show ?thesis using et by (simp add: handleSubmit_rejected[OF assms et Inl])
  next
    case (Inr d)
    then show ?thesis using et by (simp add: handleSubmit_resolved[OF assms et Inr])
  qed
qed

section \<open>The submission\<close>

text \<open>
  C10: a submission that passes both checks, and so sets the loading flag, completes
  without throwing, and its last call resets the flag: the state it leaves has
  \<open>isLoading = false\<close>, whether the summarization call resolved or rejected.
\<close>

theorem loading_reset_on_completion:
  assumes "trim (url_st st) \<noteq> []" and "isValidUrl p (url_st st)"
  shows "snd (handleSubmit p st) = Inr ()
       \<and> hd (fst (handleSubmit p st)) = SetIsLoading True
       \<and> last (fst (handleSubmit p st)) = SetIsLoading False
       \<and> isLoading (submit p st) = False"
proof -
  obtain tevs t where et: "extractTitle p (url_st st) = (tevs, Inr t)"
    using extractTitle_returns by blast
  show ?thesis
  proof (cases "scrapeAndSummarize p (url_st st)")
    case (Inl e)
    then show ?thesis
      by (simp add: handleSubmit_rejected[OF assms et Inl] submit_rejected[OF assms et Inl])
  next
    case (Inr d)
    then show ?thesis
      by (simp add: handleSubmit_resolved[OF assms et Inr] submit_resolved[OF assms et Inr])
  qed
qed

theorem loading_reset_on_completion_witness:
  "isLoading (submit (sample_platform page (Some ''A Post'') (summarized ''a b c d''))
               (idle ''https://example.com/post'')) = False
   \<and> isLoading (submit (sample_platform page (Some ''A Post'') (Inl (ErrorObject ''HTTP 500'')))
               (idle ''https://example.com/post'')) = False"
  using loading_reset_on_completion
      [of "idle ''https://example.com/post''"
          "sample_platform page (Some ''A Post'') (summarized ''a b c d'')"]
    loading_reset_on_completion
      [of "idle ''https://example.com/post''"
          "sample_platform page (Some ''A Post'') (Inl (ErrorObject ''HTTP 500''))"]
  by (simp add: url_st_idle sample_url_nonblank sample_url_valid)

text \<open>
  C7: from any state, a submission of a URL that passes both checks first sets the
  loading flag and clears the error and the result, then runs the title extractor
  to its end, and only then calls the summarization adapter; no other network call
  follows, and at every network call the state is loading, with no error and no
  result.
\<close>

theorem loading_before_network_calls:
  assumes "trim (url_st st) \<noteq> []" and "isValidUrl p (url_st st)"
  shows "\<exists>rest. fst (handleSubmit p st) =
            [SetIsLoading True, SetError [], SetSummary None]
            @ fst (extractTitle p (url_st st))
            @ ScrapeAndSummarize (url_st st) # rest
         \<and> filter is_network_call rest = []
         \<and> ScrapeAndSummarize (url_st st) \<notin> set (fst (extractTitle p (url_st st)))
         \<and> apply_events st [SetIsLoading True, SetError [], SetSummary None]
             = st\<lparr>isLoading := True, error_st := [], summary_st := None\<rparr>
         \<and> calls_while_loading st (fst (handleSubmit p st))"
proof -
  let ?st1 = "st\<lparr>isLoading := True, error_st := [], summary_st := None\<rparr>"
  have l: "calls_while_loading ?st1 (fst (extractTitle p (url_st st)))"
    by (rule extractTitle_calls_while_loading) simp_all
  have n: "foldl apply_event ?st1 (fst (extractTitle p (url_st st))) = ?st1"
    by (rule extractTitle_fst_no_setters)
  show ?thesis
    using l n extractTitle_no_scrape[of "url_st st" p "url_st st"]
    by (cases "scrapeAndSummarize p (url_st st)")
       (simp_all add: handleSubmit_trace[OF assms] apply_events_def calls_while_loading_append)
qed


lemma sample_extractTitle_page:
  "extractTitle (sample_platform page t0 r) ''https://example.com/post''
   = ([Fetch ''https://api.allorigins.win/get?url=https%3A%2F%2Fexample.com%2Fpost''],
      Inr (trim (case t0 of None \<Rightarrow> ''Untitled'' | Some t \<Rightarrow> if t = [] then ''Untitled'' else t)))"
  by (simp add: extractTitle_cases sample_platform_def sample_encodeURIComponent_def page_def)

theorem loading_before_network_calls_witness:
  "fst (handleSubmit (sample_platform page (Some ''A Post'') (summarized ''a b c d''))
          (showing_result ''https://example.com/post''))
   = [SetIsLoading True, SetError [], SetSummary None,
      Fetch ''https://api.allorigins.win/get?url=https%3A%2F%2Fexample.com%2Fpost'',
      ScrapeAndSummarize ''https://example.com/post'',
      SetSummary (Some \<lparr> url = ''https://example.com/post'', title = ''A Post'',
                          summary = ''a b c d'', urduSummary = ''urdu'',
                          wordCount = 4, readingTime = 1 \<rparr>),
      ToastSuccess ''Blog summarized successfully!'',
      SetIsLoading False]
   \<and> calls_while_loading (showing_result ''https://example.com/post'')
        (fst (handleSubmit (sample_platform page (Some ''A Post'') (summarized ''a b c d''))
                (showing_result ''https://example.com/post'')))"
proof -
  let ?st = "showing_result ''https://example.com/post''"
  let ?p = "sample_platform page (Some ''A Post'') (summarized ''a b c d'')"
  have u: "url_st ?st = ''https://example.com/post''" by (simp add: showing_result_def)
  have a: "trim (url_st ?st) \<noteq> []" by (simp add: u sample_url_nonblank)
  have b: "isValidUrl ?p (url_st ?st)" by (simp add: u sample_url_valid)
  have t: "trim ''A Post'' = ''A Post''" by (simp add: trim_def isWhiteSpace_def)
  have e: "handleSubmit ?p ?st
    = ([SetIsLoading True, SetError [], SetSummary None,
      Fetch ''https://api.allorigins.win/get?url=https%3A%2F%2Fexample.com%2Fpost'',
      ScrapeAndSummarize ''https://example.com/post'',
      SetSummary (Some \<lparr> url = ''https://example.com/post'', title = ''A Post'',
                          summary = ''a b c d'', urduSummary = ''urdu'',
                          wordCount = 4, readingTime = 1 \<rparr>),
      ToastSuccess ''Blog summarized successfully!'',
      SetIsLoading False], Inr ())"
    by (simp only: handleSubmit_trace[OF a b])
       (simp add: u sample_scrape summarized_def sample_extractTitle_page t Math_ceil_div_200)
  from loading_before_network_calls[OF a b]
  have "calls_while_loading ?st (fst (handleSubmit ?p ?st))" by blast
  then show ?thesis using e by simp
qed

lemma extractTitle_value:
  "snd (extractTitle p u) =
     Inr (case fetched_contents p u of
            None \<Rightarrow> ''Blog Post''
          | Some c \<Rightarrow>
              (case title_textContent p c of
                 None \<Rightarrow> ''Untitled''
               | Some t \<Rightarrow> if t = [] then ''Untitled'' else trim t))"
proof -
  have "trim ''Untitled'' = ''Untitled''" by (simp add: trim_def isWhiteSpace_def)
  then show ?thesis
    by (simp add: fetched_contents_def extractTitle_cases
        split: option.splits sum.splits json_body.splits)
qed

text \<open>
  C5, as amended: the title extraction never decides whether a submission fails: with
  any other proxy answer and any other document the submission ends with the same
  error message and with a record stored or not as before. When the summarization call
  resolves, the submission ends with the loading flag reset, no error message and a
  stored record, whose title is \<open>Blog Post\<close> when a step before the HTML parser threw,
  \<open>Untitled\<close> when the document has no title element or an empty one, and the trimmed
  text of the first title element otherwise.
\<close>

theorem title_failure_is_absorbed:
  assumes "trim (url_st st) \<noteq> []" and "isValidUrl p (url_st st)"
  shows "snd (handleSubmit p st) = Inr ()
       \<and> error_st (submit (p\<lparr>encodeURIComponent := h, fetch := f, title_textContent := g\<rparr>) st)
           = error_st (submit p st)
       \<and> (summary_st (submit (p\<lparr>encodeURIComponent := h, fetch := f,
                                   title_textContent := g\<rparr>) st) = None)
           = (summary_st (submit p st) = None)
       \<and> (\<forall>d. scrapeAndSummarize p (url_st st) = Inr d \<longrightarrow>
              isLoading (submit p st) = False
            \<and> error_st (submit p st) = []
            \<and> (\<exists>r. summary_st (submit p st) = Some r
                   \<and> summary r = resp_summary d
                   \<and> urduSummary r = resp_urduSummary d
                   \<and> title r =
                       (case fetched_contents p (url_st st) of
                          None \<Rightarrow> ''Blog Post''
                        | Some c \<Rightarrow>
                            (case title_textContent p c of
                               None \<Rightarrow> ''Untitled''
                             | Some t \<Rightarrow> if t = [] then ''Untitled'' else trim t))))"
proof -
  let ?p' = "p\<lparr>encodeURIComponent := h, fetch := f, title_textContent := g\<rparr>"
  obtain tevs t where et: "extractTitle p (url_st st) = (tevs, Inr t)"
    using extractTitle_returns by blast
  obtain tevs' t' where et': "extractTitle ?p' (url_st st) = (tevs', Inr t')"
    using extractTitle_returns by blast
  have v': "isValidUrl ?p' (url_st st)"
    using assms(2) by (simp add: isValidUrl_def)
  have t: "t = (case fetched_contents p (url_st st) of
                  None \<Rightarrow> ''Blog Post''
                | Some c \<Rightarrow>
                    (case title_textContent p c of
                       None \<Rightarrow> ''Untitled''
                     | Some t \<Rightarrow> if t = [] then ''Untitled'' else trim t))"
    using et extractTitle_value[of p "url_st st"] by simp
  show ?thesis
  proof (cases "scrapeAndSummarize p (url_st st)")
    case (Inl e)
    then have s': "scrapeAndSummarize ?p' (url_st st) = Inl e" by simp
    show ?thesis
      using Inl
      by (simp add: handleSubmit_rejected[OF assms et Inl] submit_rejected[OF assms et Inl]
          submit_rejected[OF assms(1) v' et' s'])
  next
    case (Inr d)
    then have s': "scrapeAndSummarize ?p' (url_st st) = Inr d" by simp
    show ?thesis
      using Inr t
      by (simp add: handleSubmit_resolved[OF assms et Inr] submit_resolved[OF assms et Inr]
          submit_resolved[OF assms(1) v' et' s'])
  qed
qed

text \<open>
  A page without a title element and a summarization that resolves: the submission
  succeeds and the record's title is \<open>Untitled\<close>, not \<open>Blog Post\<close>; a response that is
  not OK and carries a titled page gives that title to the record.
\<close>

theorem title_failure_untitled_counterexample:
  "map_option title
     (summary_st (submit (sample_platform page None (summarized ''a b c d''))
                    (idle ''https://example.com/post''))) = Some ''Untitled''
   \<and> error_st (submit (sample_platform page None (summarized ''a b c d''))
                 (idle ''https://example.com/post'')) = []
   \<and> map_option title
     (summary_st (submit (sample_platform not_found_page (Some ''Not Found'')
                            (summarized ''a b c d''))
                    (idle ''https://example.com/post''))) = Some ''Not Found''"
proof -
  let ?st = "idle ''https://example.com/post''"
  let ?p = "sample_platform page None (summarized ''a b c d'')"
  have a: "trim (url_st ?st) \<noteq> []" by (simp add: url_st_idle sample_url_nonblank)
  have b: "isValidUrl ?p (url_st ?st)" by (simp add: url_st_idle sample_url_valid)
  have d: "scrapeAndSummarize ?p (url_st ?st)
           = Inr \<lparr> resp_summary = ''a b c d'', resp_urduSummary = ''urdu'' \<rparr>"
    by (simp add: sample_scrape summarized_def)
  have et: "extractTitle ?p (url_st ?st)
            = ([Fetch ''https://api.allorigins.win/get?url=https%3A%2F%2Fexample.com%2Fpost''],
               Inr ''Untitled'')"
    by (simp add: url_st_idle sample_extractTitle_page trim_def isWhiteSpace_def)
  have e: "error_st (submit ?p ?st) = []"
    by (simp add: submit_resolved[OF a b et d])
  have nf: "snd (extractTitle (sample_platform not_found_page (Some ''Not Found'')
                                (summarized ''a b c d''))
                   ''https://example.com/post'') = Inr ''Not Found''"
    by (simp add: extractTitle_cases sample_platform_def sample_encodeURIComponent_def
        not_found_page_def trim_def isWhiteSpace_def)
  show ?thesis
    using e nf
    by (simp add: sample_submit_resolved sample_extractTitle_page trim_def isWhiteSpace_def)
qed

theorem title_failure_is_absorbed_witness:
  "fetched_contents (sample_platform network_down None (summarized ''a b c d''))
     ''https://example.com/post'' = None
   \<and> map_option title
        (summary_st (submit (sample_platform network_down None (summarized ''a b c d''))
                       (idle ''https://example.com/post''))) = Some ''Blog Post''
   \<and> error_st (submit (sample_platform network_down None (summarized ''a b c d''))
                 (idle ''https://example.com/post'')) = []
   \<and> isLoading (submit (sample_platform network_down None (summarized ''a b c d''))
                 (idle ''https://example.com/post'')) = False"
proof -
  let ?st = "idle ''https://example.com/post''"
  let ?p = "sample_platform network_down None (summarized ''a b c d'')"
  let ?d = "\<lparr> resp_summary = ''a b c d'', resp_urduSummary = ''urdu'' \<rparr>"
  have a: "trim (url_st ?st) \<noteq> []" by (simp add: url_st_idle sample_url_nonblank)
  have b: "isValidUrl ?p (url_st ?st)" by (simp add: url_st_idle sample_url_valid)
  have d: "scrapeAndSummarize ?p (url_st ?st) = Inr ?d"
    by (simp add: sample_scrape summarized_def)
  have f: "fetched_contents ?p (url_st ?st) = None"
    by (simp add: url_st_idle fetched_contents_def sample_platform_def
        sample_encodeURIComponent_def network_down_def)
  note all = title_failure_is_absorbed[OF a b, of sample_encodeURIComponent "\<lambda>req. network_down"
      "\<lambda>html. None"]
  note resolved = all[THEN conjunct2, THEN conjunct2, THEN conjunct2, rule_format, OF d]
  from resolved[THEN conjunct2, THEN conjunct2]
  obtain r where r: "summary_st (submit ?p ?st) = Some r
                   \<and> summary r = resp_summary ?d
                   \<and> urduSummary r = resp_urduSummary ?d
                   \<and> title r =
                       (case fetched_contents ?p (url_st ?st) of
                          None \<Rightarrow> ''Blog Post''
                        | Some c \<Rightarrow>
                            (case title_textContent ?p c of
                               None \<Rightarrow> ''Untitled''
                             | Some t \<Rightarrow> if t = [] then ''Untitled'' else trim t))" ..
  have t: "title r = ''Blog Post''"
    using r[THEN conjunct2, THEN conjunct2, THEN conjunct2] f by simp
  show ?thesis
    using f t r[THEN conjunct1] resolved[THEN conjunct1]
      resolved[THEN conjunct2, THEN conjunct1]
    by (simp add: url_st_idle)
qed

text \<open>
  C4, as amended: when the summarization call rejects, the submission does not throw,
  stores no record, and leaves the loading flag reset, the result cleared and as error
  message the \<open>message\<close> of the thrown \<open>Error\<close>, or the fixed text
  \<open>Failed to process blog\<close> when the thrown value is not an \<open>Error\<close>; the message is
  not empty unless the thrown \<open>Error\<close> has an empty message.
\<close>

theorem summarization_failure_state:
  assumes "trim (url_st st) \<noteq> []" and "isValidUrl p (url_st st)"
    and "scrapeAndSummarize p (url_st st) = Inl e"
  shows "snd (handleSubmit p st) = Inr ()
       \<and> submit p st =
           st\<lparr> isLoading := False, summary_st := None,
               error_st := (case e of ErrorObject m \<Rightarrow> m
                                    | OtherValue \<Rightarrow> ''Failed to process blog'') \<rparr>
       \<and> filter produces_record (fst (handleSubmit p st)) = []
       \<and> ((case e of ErrorObject m \<Rightarrow> m \<noteq> [] | OtherValue \<Rightarrow> True)
            \<longrightarrow> error_st (submit p st) \<noteq> [])"
proof -
  obtain tevs t where et: "extractTitle p (url_st st) = (tevs, Inr t)"
    using extractTitle_returns by blast
  have np: "filter produces_record tevs = []"
    using et by (auto simp add: extractTitle_cases split: option.splits sum.splits json_body.splits)
  show ?thesis
    using np
    by (simp add: handleSubmit_rejected[OF assms(1,2) et assms(3)]
        submit_rejected[OF assms(1,2) et assms(3)] split: thrown.splits)
qed

theorem summarization_failure_state_witness:
  "submit (sample_platform page (Some ''A Post'') (Inl (ErrorObject ''HTTP 500'')))
     (showing_result ''https://example.com/post'')
   = \<lparr> url_st = ''https://example.com/post'', isLoading = False, summary_st = None,
       error_st = ''HTTP 500'' \<rparr>
   \<and> error_st (submit (sample_platform page (Some ''A Post'') (Inl OtherValue))
                 (showing_result ''https://example.com/post'')) = ''Failed to process blog''"
proof -
  let ?st = "showing_result ''https://example.com/post''"
  let ?p = "sample_platform page (Some ''A Post'') (Inl (ErrorObject ''HTTP 500''))"
  let ?q = "sample_platform page (Some ''A Post'') (Inl OtherValue)"
  have u: "url_st ?st = ''https://example.com/post''" by (simp add: showing_result_def)
  have a: "trim (url_st ?st) \<noteq> []" by (simp add: u sample_url_nonblank)
  have b: "isValidUrl ?p (url_st ?st)" and b': "isValidUrl ?q (url_st ?st)"
    by (simp_all add: u sample_url_valid)
  have d: "scrapeAndSummarize ?p (url_st ?st) = Inl (ErrorObject ''HTTP 500'')"
    and d': "scrapeAndSummarize ?q (url_st ?st) = Inl OtherValue"
    by (simp_all add: sample_scrape)
  show ?thesis
    using summarization_failure_state[OF a b d] summarization_failure_state[OF a b' d']
    by (simp add: showing_result_def)
qed

text \<open>
  An \<open>Error\<close> with an empty message leaves the error cell empty: nothing is shown.
\<close>

theorem summarization_empty_message_counterexample:
  "error_st (submit (sample_platform page (Some ''A Post'') (Inl (ErrorObject [])))
               (idle ''https://example.com/post'')) = []"
proof -
  let ?st = "idle ''https://example.com/post''"
  let ?p = "sample_platform page (Some ''A Post'') (Inl (ErrorObject []))"
  obtain tevs t where et: "extractTitle ?p (url_st ?st) = (tevs, Inr t)"
    using extractTitle_returns by blast
  have a: "trim (url_st ?st) \<noteq> []" by (simp add: url_st_idle sample_url_nonblank)
  have b: "isValidUrl ?p (url_st ?st)" by (simp add: url_st_idle sample_url_valid)
  have d: "scrapeAndSummarize ?p (url_st ?st) = Inl (ErrorObject [])"
    by (simp add: sample_scrape)
  show ?thesis by (simp add: submit_rejected[OF a b et d])
qed


section \<open>The title extractor\<close>

text \<open>
  C1, as amended: \<open>extractTitle\<close> never throws. It returns \<open>Blog Post\<close> when a step
  before the HTML parser throws (the request cannot be built, \<open>fetch\<close> rejects, the
  body is not JSON or is \<open>null\<close>); \<open>Untitled\<close> when the document has no title element
  or its text is empty; and the trimmed text of the first title element otherwise. The
  status of the response is not read.
\<close>

theorem extractTitle_result:
  "snd (extractTitle p u) =
     Inr (case fetched_contents p u of
            None \<Rightarrow> ''Blog Post''
          | Some c \<Rightarrow>
              (case title_textContent p c of
                 None \<Rightarrow> ''Untitled''
               | Some t \<Rightarrow> if t = [] then ''Untitled'' else trim t))"
proof -
  have "trim ''Untitled'' = ''Untitled''" by (simp add: trim_def isWhiteSpace_def)
  then show ?thesis
    by (simp add: fetched_contents_def extractTitle_cases
        split: option.splits sum.splits json_body.splits)
qed

theorem extractTitle_result_witness:
  "snd (extractTitle (sample_platform page (Some ''  A Post '') (summarized ''a b c d''))
          ''https://example.com/post'') = Inr ''A Post''
   \<and> snd (extractTitle (sample_platform network_down None (summarized ''a b c d''))
          ''https://example.com/post'') = Inr ''Blog Post''"
  using extractTitle_result
      [of "sample_platform page (Some ''  A Post '') (summarized ''a b c d'')"
          "''https://example.com/post''"]
    extractTitle_result
      [of "sample_platform network_down None (summarized ''a b c d'')"
          "''https://example.com/post''"]
  by (simp add: fetched_contents_def sample_platform_def sample_encodeURIComponent_def
      page_def network_down_def trim_def isWhiteSpace_def)

text \<open>
  A page without a title element gives \<open>Untitled\<close>, not \<open>Blog Post\<close>; a response that
  is not OK and carries a titled page gives that title.
\<close>

theorem extractTitle_missing_title_counterexample:
  "snd (extractTitle (sample_platform page None (summarized ''a b c d''))
          ''https://example.com/post'') = Inr ''Untitled''
   \<and> snd (extractTitle (sample_platform page None (summarized ''a b c d''))
          ''https://example.com/post'') \<noteq> Inr ''Blog Post''
   \<and> snd (extractTitle (sample_platform not_found_page (Some ''Not Found'')
                           (summarized ''a b c d''))
          ''https://example.com/post'') = Inr ''Not Found''"
  by (simp add: sample_extractTitle_page trim_def isWhiteSpace_def)
     (simp add: extractTitle_cases sample_platform_def sample_encodeURIComponent_def
      not_found_page_def trim_def isWhiteSpace_def)

section \<open>The URL validator\<close>

lemma handleSubmit_blank:
  "trim (url_st st) = [] \<Longrightarrow> handleSubmit p st = ([ToastError ''Please enter a blog URL''], Inr ())"
  by (simp add: handleSubmit_def emit_def)

lemma handleSubmit_invalid:
  "trim (url_st st) \<noteq> [] \<Longrightarrow> \<not> isValidUrl p (url_st st) \<Longrightarrow>
   handleSubmit p st = ([ToastError ''Please enter a valid URL''], Inr ())"
  by (simp add: handleSubmit_def emit_def)

text \<open>
  C3, as amended: \<open>isValidUrl\<close> returns true exactly when the \<open>URL\<close> constructor
  accepts the string, whatever the host of the parsed URL. A submission whose input is
  empty or white space only is rejected with a notification whatever the constructor
  would answer; and a submission rejected by either check makes no network call,
  does not throw and leaves the state as it was.
\<close>

theorem url_validation_contract:
  "(isValidUrl p s \<longleftrightarrow> new_URL p s \<noteq> None)
   \<and> (trim (url_st st) = [] \<longrightarrow>
        handleSubmit (p\<lparr>new_URL := f\<rparr>) st = ([ToastError ''Please enter a blog URL''], Inr ()))
   \<and> (trim (url_st st) = [] \<or> \<not> isValidUrl p (url_st st) \<longrightarrow>
        filter is_network_call (fst (handleSubmit p st)) = []
        \<and> snd (handleSubmit p st) = Inr ()
        \<and> submit p st = st)"
proof -
  have 1: "isValidUrl p s \<longleftrightarrow> new_URL p s \<noteq> None"
    by (simp add: isValidUrl_def split: option.splits)
  have 2: "trim (url_st st) = [] \<longrightarrow>
        handleSubmit (p\<lparr>new_URL := f\<rparr>) st = ([ToastError ''Please enter a blog URL''], Inr ())"
    by (simp add: handleSubmit_blank)
  have 3: "trim (url_st st) = [] \<or> \<not> isValidUrl p (url_st st) \<longrightarrow>
        filter is_network_call (fst (handleSubmit p st)) = []
        \<and> snd (handleSubmit p st) = Inr ()
        \<and> submit p st = st"
  proof (cases "trim (url_st st) = []")
    case True
    then show ?thesis by (simp add: handleSubmit_blank submit_def apply_events_def)
  next
    case False
    then show ?thesis by (simp add: handleSubmit_invalid submit_def apply_events_def)
  qed
  from 1 2 3 show ?thesis by (intro conjI)
qed

theorem url_validation_contract_witness:
  "handleSubmit (sample_platform page (Some ''A Post'') (summarized ''a b c d''))
     (idle [CHR '' '', CHR 0x09, CHR '' ''])
   = ([ToastError ''Please enter a blog URL''], Inr ())
   \<and> \<not> isValidUrl (sample_platform page (Some ''A Post'') (summarized ''a b c d'')) ''not a url''
   \<and> filter is_network_call
        (fst (handleSubmit (sample_platform page (Some ''A Post'') (summarized ''a b c d''))
                (idle ''not a url''))) = []
   \<and> submit (sample_platform page (Some ''A Post'') (summarized ''a b c d''))
        (showing_result ''not a url'') = showing_result ''not a url''"
proof -
  let ?p = "sample_platform page (Some ''A Post'') (summarized ''a b c d'')"
  have p: "?p\<lparr>new_URL := sample_new_URL\<rparr> = ?p" by (simp add: sample_platform_def)
  have blank: "trim (url_st (idle [CHR '' '', CHR 0x09, CHR '' ''])) = []"
    by (simp add: idle_def trim_def isWhiteSpace_def)
  have inv: "\<not> isValidUrl ?p ''not a url''"
    by (simp add: isValidUrl_def sample_platform_def sample_new_URL_def)
  have i1: "\<not> isValidUrl ?p (url_st (idle ''not a url''))"
    and i2: "\<not> isValidUrl ?p (url_st (showing_result ''not a url''))"
    using inv by (simp_all add: idle_def showing_result_def)
  show ?thesis
    using url_validation_contract
            [of ?p "''not a url''" "idle [CHR '' '', CHR 0x09, CHR '' '']" sample_new_URL]
          url_validation_contract[of ?p "''not a url''" "idle ''not a url''" sample_new_URL]
          url_validation_contract[of ?p "''not a url''" "showing_result ''not a url''" sample_new_URL]
          blank inv i1 i2
    by (simp add: p)
qed

text \<open>
  A \<open>mailto\<close> URL has no host; the constructor accepts it, the validator returns true
  and the submission goes on to both network calls.
\<close>

theorem isValidUrl_hostless_counterexample:
  "isValidUrl (sample_platform page (Some ''A Post'') (summarized ''a b c d'')) ''mailto:a@b.c''
   \<and> map_option host
        (new_URL (sample_platform page (Some ''A Post'') (summarized ''a b c d''))
           ''mailto:a@b.c'') = Some []
   \<and> filter is_network_call
        (fst (handleSubmit (sample_platform page (Some ''A Post'') (summarized ''a b c d''))
                (idle ''mailto:a@b.c'')))
       = [Fetch ''https://api.allorigins.win/get?url=mailto%3Aa%40b.c'',
          ScrapeAndSummarize ''mailto:a@b.c'']"
proof -
  let ?p = "sample_platform page (Some ''A Post'') (summarized ''a b c d'')"
  let ?st = "idle ''mailto:a@b.c''"
  have v: "isValidUrl ?p ''mailto:a@b.c''"
    by (simp add: isValidUrl_def sample_platform_def sample_new_URL_def)
  have a: "trim (url_st ?st) \<noteq> []" by (simp add: url_st_idle trim_def isWhiteSpace_def)
  have b: "isValidUrl ?p (url_st ?st)" using v by (simp add: url_st_idle)
  have et: "fst (extractTitle (sample_platform page (Some ''A Post'') r) ''mailto:a@b.c'')
            = [Fetch ''https://api.allorigins.win/get?url=mailto%3Aa%40b.c'']" for r
    by (simp add: extractTitle_cases sample_platform_def sample_encodeURIComponent_def page_def)
  have h: "map_option host (new_URL ?p ''mailto:a@b.c'') = Some []"
    by (simp add: sample_platform_def sample_new_URL_def)
  have n: "filter is_network_call (fst (handleSubmit ?p ?st))
       = [Fetch ''https://api.allorigins.win/get?url=mailto%3Aa%40b.c'',
          ScrapeAndSummarize ''mailto:a@b.c'']"
    by (simp only: handleSubmit_trace[OF a b])
       (simp add: url_st_idle et sample_scrape summarized_def)
  from v h n show ?thesis by (intro conjI)
qed

section \<open>The copy actions\<close>

text \<open>
  C8: when a record is displayed, the three copy buttons write to the clipboard, in
  this order: the summary unchanged; the summary after the header line
  \<open>Blog Summary\<close> and an empty line; the Urdu summary unchanged. Each handler writes
  once and then shows a notification.
\<close>

theorem copy_actions_clipboard:
  assumes "summary_st st = Some r"
  shows "onClick_handlers st = [copySummary r, copyFullSummary r, copyUrduTranslation r]
       \<and> fst (copySummary r)
           = [ClipboardWriteText (summary r), ToastSuccess ''Summary copied to clipboard!'']
       \<and> fst (copyFullSummary r)
           = [ClipboardWriteText (''Blog Summary'' @ [CHR 0x0A, CHR 0x0A] @ summary r),
              ToastSuccess ''Full summary copied!'']
       \<and> fst (copyUrduTranslation r)
           = [ClipboardWriteText (urduSummary r), ToastSuccess ''Urdu translation copied!'']
       \<and> map (\<lambda>h. clipboard_after c (fst h)) (onClick_handlers st)
           = [Some (summary r),
              Some (''Blog Summary'' @ [CHR 0x0A, CHR 0x0A] @ summary r),
              Some (urduSummary r)]"
  using assms
  by (simp add: onClick_handlers_def copySummary_def copyFullSummary_def
      copyUrduTranslation_def bind_def emit_def)

theorem copy_actions_clipboard_witness:
  "map (\<lambda>h. clipboard_after None (fst h))
     (onClick_handlers (showing_result ''https://example.com/post''))
   = [Some ''old text'',
      Some (''Blog Summary'' @ [CHR 0x0A, CHR 0x0A] @ ''old text''),
      Some ''urdu'']"
  using copy_actions_clipboard
    [of "showing_result ''https://example.com/post''"
        "\<lparr> url = ''https://example.com/old'', title = ''Old'',
            summary = ''old text'', urduSummary = ''urdu'',
            wordCount = 2, readingTime = 1 \<rparr>" None]
  by (simp add: showing_result_def)

end
